theory Spec2Isabelle
  imports Main "HOL-Library.Char_ord" "HOL-Library.List_Lexorder" "HOL-Library.Word"
begin

section \<open>Strings\<close>

text \<open>
  File names, directory names and command-line arguments are Python \<open>str\<close> values. They
  are modelled as \<open>string\<close>: a \<open>char\<close> stands for the code point of the same number
  (0 to 255), so the model covers names and arguments in the Latin-1 range. The order on
  \<open>string\<close> is the lexicographic order by code point, which is how Python compares \<open>str\<close>.
\<close>

definition is_space :: "char \<Rightarrow> bool" where
  \<comment> \<open>\<open>str.isspace\<close> on one character, the characters \<open>str.strip()\<close> removes\<close>
  "is_space c =
     (let n = (of_char c :: nat)
      in (9 \<le> n \<and> n \<le> 13) \<or> (28 \<le> n \<and> n \<le> 32) \<or> n = 133 \<or> n = 160)"

definition lower_char :: "char \<Rightarrow> char" where
  "lower_char c =
     (let n = (of_char c :: nat)
      in if (65 \<le> n \<and> n \<le> 90) \<or> (192 \<le> n \<and> n \<le> 222 \<and> n \<noteq> 215)
         then char_of (n + 32) else c)"

definition lower :: "string \<Rightarrow> string" where
  \<comment> \<open>\<open>str.lower()\<close>\<close>
  "lower s = map lower_char s"

definition strip :: "string \<Rightarrow> string" where
  \<comment> \<open>\<open>str.strip()\<close>: white space removed at both ends\<close>
  "strip s = rev (dropWhile is_space (rev (dropWhile is_space s)))"

definition lstrip :: "char \<Rightarrow> string \<Rightarrow> string" where
  \<comment> \<open>\<open>str.lstrip(c)\<close> for a one-character argument: every leading \<open>c\<close> is removed\<close>
  "lstrip c s = dropWhile (\<lambda>x. x = c) s"

fun split :: "char \<Rightarrow> string \<Rightarrow> string list" where
  \<comment> \<open>\<open>str.split(sep)\<close> for a one-character separator\<close>
  "split sep [] = [[]]"
| "split sep (c # cs) =
     (if c = sep then [] # split sep cs
      else (case split sep cs of
              [] \<Rightarrow> [[c]]
            | t # ts \<Rightarrow> (c # t) # ts))"

definition rsplit1_last :: "char \<Rightarrow> string \<Rightarrow> string" where
  \<comment> \<open>\<open>s.rsplit(sep, 1)[-1]\<close>: what follows the last \<open>sep\<close> (all of \<open>s\<close> without one)\<close>
  "rsplit1_last sep s = rev (takeWhile (\<lambda>x. x \<noteq> sep) (rev s))"

definition path_join :: "string \<Rightarrow> string \<Rightarrow> string" where
  \<comment> \<open>\<open>os.path.join(a, b)\<close> of posixpath\<close>
  "path_join a b =
     (if b \<noteq> [] \<and> hd b = CHR ''/'' then b
      else if a = [] \<or> last a = CHR ''/'' then a @ b
      else a @ ''/'' @ b)"

section \<open>Configuration\<close>

definition DEFAULT_EXCLUDE_DIRS :: "string set" where
  "DEFAULT_EXCLUDE_DIRS = set
     [''.git'', ''target'', ''node_modules'', ''build'', ''dist'', ''.idea'', ''.vscode'',
      ''.venv'', ''__pycache__'', ''.mvn'', ''.gradle'', ''.pytest_cache'',
      ''.scannerwork'', ''.sonar'', ''coverage'', ''out'', ''jacoco-report'']"

definition DEFAULT_INCLUDE_EXT :: "string set" where
  "DEFAULT_INCLUDE_EXT = set
     [''py'', ''js'', ''ts'', ''tsx'', ''jsx'', ''html'', ''css'',
      ''md'', ''markdown'', ''txt'', ''yml'', ''yaml'', ''json'', ''xml'', ''xsd'',
      ''properties'', ''ini'', ''cfg'', ''conf'', ''sql'', ''sh'', ''bash'', ''ksh'', ''bat'',
      ''groovy'', ''kt'', ''gradle'', ''rb'', ''go'', ''c'', ''cc'', ''cpp'', ''h'', ''hpp'',
      ''env'', ''dockerfile'', ''jenkinsfile'']"

definition SPECIAL_FILENAMES :: "string set" where
  "SPECIAL_FILENAMES = set [''dockerfile'', ''jenkinsfile'']"

definition resolve_include_exts :: "string \<Rightarrow> string set" where
  \<comment> \<open>lines 148-150 of \<open>main\<close>; the argument is \<open>args.include\<close>\<close>
  "resolve_include_exts include =
     (let include_exts = DEFAULT_INCLUDE_EXT
      in if strip include \<noteq> []
         then set (map (\<lambda>x. lstrip CHR ''.'' (lower (strip x)))
                    (filter (\<lambda>x. strip x \<noteq> []) (split CHR '','' include)))
         else include_exts)"

definition resolve_exclude_dirs :: "string \<Rightarrow> string set" where
  \<comment> \<open>lines 152-154 of \<open>main\<close>; the argument is \<open>args.exclude_dirs\<close>\<close>
  "resolve_exclude_dirs exclude =
     (let exclude_dirs = DEFAULT_EXCLUDE_DIRS
      in if strip exclude \<noteq> []
         then exclude_dirs \<union>
              set (map strip (filter (\<lambda>x. strip x \<noteq> []) (split CHR '','' exclude)))
         else exclude_dirs)"

section \<open>File collector\<close>

definition should_include :: "string \<Rightarrow> string set \<Rightarrow> bool" where
  "should_include filename include_exts =
     (let lower_name = lower filename
      in if lower_name \<in> SPECIAL_FILENAMES then True
         else if CHR ''.'' \<in> set lower_name
              then rsplit1_last CHR ''.'' lower_name \<in> include_exts
              else False)"

text \<open>
  What \<open>os.walk\<close> finds below a directory: the subdirectories with their names, in the
  order the operating system lists them, and the names of the files.
\<close>

datatype dir = Dir (dir_subdirs: "(string \<times> dir) list") (dir_files: "string list")

text \<open>
  \<open>gather_files\<close> walks top-down: the files of a directory come first, in sorted order,
  then the subdirectories that remain after pruning, each in turn, in sorted order.
\<close>

fun gather_files :: "string \<Rightarrow> string set \<Rightarrow> string set \<Rightarrow> dir \<Rightarrow> string list" where
  "gather_files dirpath include_exts exclude_dirs (Dir dirnames filenames) =
     map (path_join dirpath) (filter (\<lambda>fname. should_include fname include_exts) (sort filenames))
     @ concat (map (\<lambda>(d, sub). gather_files (path_join dirpath d) include_exts exclude_dirs sub)
                 (filter (\<lambda>(d, sub). d \<notin> exclude_dirs) (sort_key fst dirnames)))"

section \<open>Content loader\<close>

text \<open>
  Bytes read from a file are 8-bit words. Decoded text is a Python \<open>str\<close> of arbitrary
  code points and is modelled as a list of code points.
\<close>

type_synonym byte = "8 word"
type_synonym utext = "nat list"

definition str :: "string \<Rightarrow> utext" where
  \<comment> \<open>a name or message of the Latin-1 range as a sequence of code points\<close>
  "str s = map of_char s"

definition is_cont :: "byte \<Rightarrow> bool" where
  "is_cont b = (128 \<le> unat b \<and> unat b < 192)"

fun utf8_decode :: "byte list \<Rightarrow> utext option" where
  \<comment> \<open>\<open>data.decode("utf-8")\<close>; \<open>None\<close> is \<open>UnicodeDecodeError\<close>\<close>
  "utf8_decode [] = Some []"
| "utf8_decode (b0 # bs) =
     (let a = unat b0
      in if a < 128 then map_option (\<lambda>r. a # r) (utf8_decode bs)
         else if 194 \<le> a \<and> a \<le> 223 then
           (case bs of
              b1 # r \<Rightarrow>
                if is_cont b1
                then map_option (\<lambda>r. ((a - 192) * 64 + (unat b1 - 128)) # r) (utf8_decode r)
                else None
            | _ \<Rightarrow> None)
         else if 224 \<le> a \<and> a \<le> 239 then
           (case bs of
              b1 # b2 # r \<Rightarrow>
                (let cp = (a - 224) * 4096 + (unat b1 - 128) * 64 + (unat b2 - 128)
                 in if is_cont b1 \<and> is_cont b2 \<and> 2048 \<le> cp \<and> \<not> (55296 \<le> cp \<and> cp \<le> 57343)
                    then map_option (\<lambda>r. cp # r) (utf8_decode r)
                    else None)
            | _ \<Rightarrow> None)
         else if 240 \<le> a \<and> a \<le> 244 then
           (case bs of
              b1 # b2 # b3 # r \<Rightarrow>
                (let cp = (a - 240) * 262144 + (unat b1 - 128) * 4096
                          + (unat b2 - 128) * 64 + (unat b3 - 128)
                 in if is_cont b1 \<and> is_cont b2 \<and> is_cont b3 \<and> 65536 \<le> cp \<and> cp \<le> 1114111
                    then map_option (\<lambda>r. cp # r) (utf8_decode r)
                    else None)
            | _ \<Rightarrow> None)
         else None)"

definition latin1_decode :: "byte list \<Rightarrow> utext" where
  \<comment> \<open>\<open>data.decode("latin-1", errors="replace")\<close>: every byte is a code point, nothing to replace\<close>
  "latin1_decode data = map unat data"

definition digit :: "nat \<Rightarrow> char" where
  "digit d = char_of (48 + d)"

function show_nat :: "nat \<Rightarrow> string" where
  "show_nat n = (if n < 10 then [digit n] else show_nat (n div 10) @ [digit (n mod 10)])"
  by pat_completeness auto
termination
  by (relation "measure id") auto

declare show_nat.simps [simp del]

definition show_int :: "int \<Rightarrow> string" where
  \<comment> \<open>a Python \<open>int\<close> inside an f-string\<close>
  "show_int i = (if i < 0 then CHR ''-'' # show_nat (nat (- i)) else show_nat (nat i))"

text \<open>
  The file system as the loader sees it. Each operation on a path either raises (the text
  of the exception is kept) or returns its value. The three operations of one path are
  independent, so a file that changes or disappears between two of them is covered.
\<close>

record file_io =
  getsize :: "string + int"
  read_prefix :: "nat \<Rightarrow> string + byte list"
  read_whole :: "string + byte list"

text \<open>The operations attempted on the file system, in order, are logged.\<close>

datatype fs_op = Stat string | ReadPrefix string nat | ReadWhole string

definition looks_binary_io :: "(string \<Rightarrow> file_io) \<Rightarrow> string \<Rightarrow> nat \<Rightarrow> bool \<times> fs_op list" where
  "looks_binary_io fs path sample_size =
     (case read_prefix (fs path) sample_size of
        Inr chunk \<Rightarrow> (0 \<in> set chunk, [ReadPrefix path sample_size])
      | Inl e \<Rightarrow> (True, [ReadPrefix path sample_size]))"

definition looks_binary :: "(string \<Rightarrow> file_io) \<Rightarrow> string \<Rightarrow> nat \<Rightarrow> bool" where
  "looks_binary fs path sample_size = fst (looks_binary_io fs path sample_size)"

definition size_note :: "int \<Rightarrow> int \<Rightarrow> string" where
  "size_note sz max_bytes =
     ''IGNORED (size '' @ show_int sz @ '' > '' @ show_int max_bytes @ '' bytes)''"

definition binary_note :: string where
  "binary_note = ''IGNORED (binary file)''"

definition latin1_note :: string where
  "latin1_note = ''NOTE (decoded as latin-1 with replacements)''"

definition error_note :: "string \<Rightarrow> string" where
  "error_note e = ''IGNORED (error reading: '' @ e @ '')''"

definition read_text_safely_io ::
  "(string \<Rightarrow> file_io) \<Rightarrow> string \<Rightarrow> int \<Rightarrow> (utext option \<times> string option) \<times> fs_op list" where
  "read_text_safely_io fs path max_bytes =
     (case getsize (fs path) of
        Inl e \<Rightarrow> ((None, Some (error_note e)), [Stat path])
      | Inr sz \<Rightarrow>
          if sz > max_bytes then ((None, Some (size_note sz max_bytes)), [Stat path])
          else
            (case looks_binary_io fs path 2048 of
               (True, ops) \<Rightarrow> ((None, Some binary_note), Stat path # ops)
             | (False, ops) \<Rightarrow>
                 (case read_whole (fs path) of
                    Inl e \<Rightarrow> ((None, Some (error_note e)), Stat path # ops @ [ReadWhole path])
                  | Inr data \<Rightarrow>
                      (case utf8_decode data of
                         Some t \<Rightarrow> ((Some t, None), Stat path # ops @ [ReadWhole path])
                       | None \<Rightarrow> ((Some (latin1_decode data), Some latin1_note),
                                   Stat path # ops @ [ReadWhole path])))))"

definition read_text_safely ::
  "(string \<Rightarrow> file_io) \<Rightarrow> string \<Rightarrow> int \<Rightarrow> utext option \<times> string option" where
  "read_text_safely fs path max_bytes = fst (read_text_safely_io fs path max_bytes)"

text \<open>A regular, readable file that holds \<open>data\<close> and does not change during the run.\<close>

definition plain_file :: "byte list \<Rightarrow> file_io" where
  "plain_file data =
     \<lparr>getsize = Inr (int (length data)),
      read_prefix = (\<lambda>n. Inr (take n data)),
      read_whole = Inr data\<rparr>"

section \<open>Text wrapping\<close>

text \<open>
  \<open>str.splitlines()\<close>: a line ends at a line feed, a carriage return (with the line feed
  that follows it, if any), a vertical tab, a form feed, a file, group or record separator,
  a next-line character, or a Unicode line or paragraph separator. The line endings are not
  part of the lines, and nothing follows the last line ending.
\<close>

definition is_linebreak :: "nat \<Rightarrow> bool" where
  "is_linebreak c = (c \<in> {10, 11, 12, 13, 28, 29, 30, 133, 8232, 8233})"

fun splitlines :: "utext \<Rightarrow> utext list" where
  "splitlines [] = []"
| "splitlines [c] = (if is_linebreak c then [[]] else [[c]])"
| "splitlines (c # d # cs) =
     (if c = 13 \<and> d = 10 then [] # splitlines cs
      else if is_linebreak c then [] # splitlines (d # cs)
      else (case splitlines (d # cs) of
              [] \<Rightarrow> [[c]]
            | l # ls \<Rightarrow> (c # l) # ls))"

text \<open>
  \<open>textwrap.TextWrapper\<close> of the Python standard library, with the options of
  \<open>write_file_block\<close>: \<open>width=500\<close>, \<open>replace_whitespace=False\<close>, \<open>drop_whitespace=False\<close>,
  \<open>break_long_words=True\<close>, \<open>break_on_hyphens=False\<close>, and the defaults for the options the
  source does not pass: \<open>expand_tabs=True\<close>, \<open>tabsize=8\<close>, empty indents,
  \<open>fix_sentence_endings=False\<close>, \<open>max_lines=None\<close>.
\<close>

fun expandtabs :: "nat \<Rightarrow> nat \<Rightarrow> utext \<Rightarrow> utext" where
  \<comment> \<open>\<open>str.expandtabs(tabsize)\<close>; the second argument is the current column\<close>
  "expandtabs tabsize col [] = []"
| "expandtabs tabsize col (c # cs) =
     (if c = 9 then
        (if tabsize > 0
         then (let incr = tabsize - col mod tabsize
               in replicate incr 32 @ expandtabs tabsize (col + incr) cs)
         else expandtabs tabsize col cs)
      else if c = 10 \<or> c = 13 then c # expandtabs tabsize 0 cs
      else c # expandtabs tabsize (col + 1) cs)"

definition is_wordsep :: "nat \<Rightarrow> bool" where
  \<comment> \<open>the white space of \<open>wordsep_simple_re\<close>: tab, line feed, vertical tab, form feed,
     carriage return, space\<close>
  "is_wordsep c = (c \<in> {9, 10, 11, 12, 13, 32})"

fun split_chunks :: "utext \<Rightarrow> utext list" where
  \<comment> \<open>\<open>_split\<close>: the maximal runs of white space and of other characters, in order\<close>
  "split_chunks [] = []"
| "split_chunks (c # cs) =
     (case split_chunks cs of
        [] \<Rightarrow> [[c]]
      | [] # rs \<Rightarrow> [c] # rs
      | (d # r) # rs \<Rightarrow>
          if is_wordsep c = is_wordsep d then (c # d # r) # rs else [c] # (d # r) # rs)"

fun take_fitting :: "nat \<Rightarrow> nat \<Rightarrow> utext list \<Rightarrow> utext list \<times> nat \<times> utext list" where
  \<comment> \<open>the inner loop of \<open>_wrap_chunks\<close>: chunks are moved to the current line while they fit;
     the result is the current line, its length, and the chunks that remain\<close>
  "take_fitting width cur_len [] = ([], cur_len, [])"
| "take_fitting width cur_len (chunk # chunks) =
     (let l = length chunk
      in if cur_len + l \<le> width
         then (case take_fitting width (cur_len + l) chunks of
                 (cur_line, n, rest) \<Rightarrow> (chunk # cur_line, n, rest))
         else ([], cur_len, chunk # chunks))"

definition handle_long_word ::
  "utext \<Rightarrow> utext list \<Rightarrow> utext list \<Rightarrow> nat \<Rightarrow> nat \<Rightarrow> utext list \<times> utext list" where
  \<comment> \<open>\<open>_handle_long_word\<close> with \<open>break_long_words\<close> set and \<open>break_on_hyphens\<close> unset; the first
     two arguments are the chunk on top of the stack and the chunks below it\<close>
  "handle_long_word chunk others cur_line cur_len width =
     (let space_left = (if width < 1 then 1 else width - cur_len)
      in (cur_line @ [take space_left chunk], drop space_left chunk # others))"

definition wrap_step :: "nat \<Rightarrow> utext list \<Rightarrow> utext list \<times> utext list" where
  \<comment> \<open>one turn of the outer loop of \<open>_wrap_chunks\<close>: the current line, as a list of chunks,
     and the chunks that remain\<close>
  "wrap_step width chunks =
     (case take_fitting width 0 chunks of
        (cur_line, cur_len, rest) \<Rightarrow>
          (case rest of
             [] \<Rightarrow> (cur_line, rest)
           | chunk # others \<Rightarrow>
               if length chunk > width
               then handle_long_word chunk others cur_line cur_len width
               else (cur_line, rest)))"

lemma take_fitting_split:
  "take_fitting w n chunks = (cur_line, m, rest) \<Longrightarrow> chunks = cur_line @ rest"
proof (induction chunks arbitrary: n cur_line m rest)
  case Nil
  then show ?case by simp
next
  case (Cons c cs)
  show ?case
  proof (cases "n + length c \<le> w")
    case True
    obtain cl k r where tf: "take_fitting w (n + length c) cs = (cl, k, r)"
      by (cases "take_fitting w (n + length c) cs") auto
    from Cons.prems True tf have "cur_line = c # cl" "rest = r" by simp_all
    with Cons.IH [OF tf] show ?thesis by simp
  next
    case False
    with Cons.prems show ?thesis by simp
  qed
qed

lemma take_fitting_length:
  "take_fitting w n chunks = (cur_line, m, rest) \<Longrightarrow> m = n + length (concat cur_line) \<and> (n \<le> w \<longrightarrow> m \<le> w)"
proof (induction chunks arbitrary: n cur_line m rest)
  case Nil
  then show ?case by simp
next
  case (Cons c cs)
  show ?case
  proof (cases "n + length c \<le> w")
    case True
    obtain cl k r where tf: "take_fitting w (n + length c) cs = (cl, k, r)"
      by (cases "take_fitting w (n + length c) cs") auto
    from Cons.prems True tf have "cur_line = c # cl" "m = k" by simp_all
    with Cons.IH [OF tf] True show ?thesis by simp
  next
    case False
    with Cons.prems show ?thesis by simp
  qed
qed

lemma take_fitting_progress:
  "take_fitting w 0 (c # cs) = ([], m, rest) \<Longrightarrow> w < length c"
  by (cases "length c \<le> w") (auto split: prod.splits)

definition chunks_size :: "utext list \<Rightarrow> nat" where
  "chunks_size chunks = length (concat chunks) + length chunks"

lemma wrap_step_decreases:
  assumes "chunks \<noteq> []" and "0 < w" and "wrap_step w chunks = (cur_line, rest)"
  shows "chunks_size rest < chunks_size chunks"
proof -
  obtain cl m r where tf: "take_fitting w 0 chunks = (cl, m, r)"
    by (cases "take_fitting w 0 chunks") auto
  have sp: "chunks = cl @ r" using take_fitting_split [OF tf] .
  show ?thesis
  proof (cases r)
    case Nil
    with assms tf sp show ?thesis by (auto simp: wrap_step_def chunks_size_def)
  next
    case (Cons c others)
    show ?thesis
    proof (cases cl)
      case cl_nil: Nil
      with sp Cons have ch: "chunks = c # others" by simp
      with tf cl_nil have long: "w < length c" using take_fitting_progress by blast
      from take_fitting_length [OF tf] cl_nil have "m = 0" by simp
      with assms(2,3) tf Cons long have "rest = drop w c # others"
        by (simp add: wrap_step_def handle_long_word_def Let_def)
      with ch long assms(2) show ?thesis by (simp add: chunks_size_def)
    next
      case (Cons x xs)
      have "rest = r \<or> (\<exists>k. rest = drop k c # others)"
        using assms(3) tf \<open>r = c # others\<close>
        by (auto simp: wrap_step_def handle_long_word_def Let_def split: if_splits)
      then have "chunks_size rest \<le> chunks_size r"
        using \<open>r = c # others\<close> by (auto simp: chunks_size_def)
      moreover have "chunks_size r < chunks_size chunks"
        using sp Cons by (simp add: chunks_size_def)
      ultimately show ?thesis by simp
    qed
  qed
qed

function wrap_lines :: "nat \<Rightarrow> utext list \<Rightarrow> utext list" where
  \<comment> \<open>the outer loop of \<open>_wrap_chunks\<close>; \<open>_wrap_chunks\<close> raises \<open>ValueError\<close> on a width below 1
     before the loop starts, so the loop runs with a positive width only\<close>
  "wrap_lines width chunks =
     (if chunks = [] \<or> width = 0 then []
      else (case wrap_step width chunks of
              (cur_line, rest) \<Rightarrow>
                (if cur_line \<noteq> [] then [concat cur_line] else []) @ wrap_lines width rest))"
  by pat_completeness auto
termination
  apply (relation "measure (\<lambda>(w, chunks). chunks_size chunks)")
   apply simp
  apply clarsimp
  apply (rule wrap_step_decreases [OF _ _ sym])
    apply assumption+
  done

declare wrap_lines.simps [simp del]

definition wrapper_wrap :: "utext \<Rightarrow> utext list" where
  \<comment> \<open>\<open>wrapper.wrap(raw)\<close> for the wrapper of \<open>write_file_block\<close>\<close>
  "wrapper_wrap raw = wrap_lines 500 (split_chunks (expandtabs 8 0 raw))"

section \<open>Exporter\<close>

text \<open>
  The output file is the sequence of the strings written to it, one element for each call
  of \<open>out.write\<close>. A line feed is the code point 10.
\<close>

fun join_with :: "'a list \<Rightarrow> 'a list list \<Rightarrow> 'a list" where
  \<comment> \<open>\<open>sep.join(parts)\<close>\<close>
  "join_with sep [] = []"
| "join_with sep [x] = x"
| "join_with sep (x # y # ys) = x @ sep @ join_with sep (y # ys)"

fun common_prefix :: "'a list \<Rightarrow> 'a list \<Rightarrow> 'a list" where
  "common_prefix (x # xs) (y # ys) = (if x = y then x # common_prefix xs ys else [])"
| "common_prefix _ _ = []"

definition relpath :: "string \<Rightarrow> string \<Rightarrow> string" where
  \<comment> \<open>\<open>os.path.relpath(path, start)\<close> of posixpath, for two absolute paths in normal form,
     as \<open>main\<close> passes them: \<open>start\<close> is the result of \<open>os.path.abspath\<close>, and \<open>path\<close> is
     \<open>start\<close> joined with names of directory entries\<close>
  "relpath path start =
     (let start_list = filter (\<lambda>x. x \<noteq> []) (split CHR ''/'' start);
          path_list = filter (\<lambda>x. x \<noteq> []) (split CHR ''/'' path);
          i = length (common_prefix start_list path_list);
          rel_list = replicate (length start_list - i) ''..'' @ drop i path_list
      in if rel_list = [] then ''.'' else join_with ''/'' rel_list)"

definition fmt_04d :: "nat \<Rightarrow> string" where
  \<comment> \<open>the format \<open>04d\<close> of a number that is not negative\<close>
  "fmt_04d i = (let d = show_nat i in replicate (4 - length d) CHR ''0'' @ d)"

definition fmt_note :: "string option \<Rightarrow> utext" where
  \<comment> \<open>\<open>note\<close> inside an f-string\<close>
  "fmt_note note = (case note of None \<Rightarrow> str ''None'' | Some n \<Rightarrow> str n)"

definition write_header ::
  "utext list \<Rightarrow> string \<Rightarrow> string list \<Rightarrow> bool \<Rightarrow> string \<Rightarrow> utext list" where
  \<comment> \<open>the last argument is the result of \<open>datetime.datetime.now().isoformat(timespec="seconds")\<close>\<close>
  "write_header out root files add_toc now =
     (let out1 = out @ [str ''# TEXT EXPORT OF PROJECT'' @ [10],
                        str ''Root: '' @ str root @ [10],
                        str ''Generated: '' @ str now @ [10],
                        str ''Files found: '' @ str (show_nat (length files)) @ [10],
                        str (replicate 80 CHR ''#'') @ [10, 10]]
      in if add_toc
         then out1 @ [str ''TABLE OF CONTENTS'' @ [10]]
              @ map (\<lambda>(i, fpath). str (fmt_04d i) @ str ''. '' @ str (relpath fpath root) @ [10])
                  (List.enumerate 1 files)
              @ [[10] @ str (replicate 80 CHR ''#'') @ [10, 10]]
         else out1)"

definition write_body_line :: "utext \<Rightarrow> utext list \<Rightarrow> utext list" where
  \<comment> \<open>the body of the loop over \<open>text.splitlines()\<close> in \<open>write_file_block\<close>\<close>
  "write_body_line raw out =
     (let wrapped = wrapper_wrap raw
      in out @ [(if wrapped \<noteq> [] then join_with [10] wrapped else []) @ [10]])"

definition write_file_block ::
  "utext list \<Rightarrow> string \<Rightarrow> utext option \<Rightarrow> string option \<Rightarrow> utext list" where
  "write_file_block out rel_path txt note =
     (let sep = str (replicate 80 CHR ''-'')
      in case txt of
           None \<Rightarrow>
             out @ [str ''===== FILE: '' @ str rel_path @ str '' ('' @ fmt_note note
                      @ str '') ====='' @ [10],
                    sep @ [10, 10]]
         | Some t \<Rightarrow>
             fold write_body_line (splitlines t)
               (out @ [str ''===== FILE: '' @ str rel_path @ str '' ====='' @ [10], sep @ [10]])
             @ [sep @ [10],
                str ''===== END FILE: '' @ str rel_path @ str '' ====='' @ [10, 10]])"

text \<open>
  What \<open>main\<close> is run with: the parsed arguments, \<open>root\<close> and \<open>output\<close> as absolute paths
  already, and the file system and clock it meets. \<open>root_dir\<close> is the tree found at the
  root, \<open>None\<close> when the root is not a directory. Creating the directory of the output
  file and opening the file for writing are taken to succeed.
\<close>

record args =
  args_root :: string
  args_output :: string
  args_max_bytes :: int
  args_include :: string
  args_exclude_dirs :: string
  args_toc :: bool

record world =
  root_dir :: "dir option"
  files_io :: "string \<Rightarrow> file_io"
  clock_now :: string

record run_result =
  output_doc :: "utext list"
  written_count :: nat
  stdout_lines :: "string list"

definition export_file ::
  "(string \<Rightarrow> file_io) \<Rightarrow> string \<Rightarrow> int \<Rightarrow> string \<Rightarrow> utext list \<times> nat \<Rightarrow> utext list \<times> nat" where
  \<comment> \<open>the body of the loop over \<open>files\<close> in \<open>main\<close>, on the output and the counter \<open>written\<close>\<close>
  "export_file fs root max_bytes f = (\<lambda>(out, written).
     (let rel = relpath f root;
          (txt, note) = read_text_safely fs f max_bytes;
          out' = write_file_block out rel txt note
      in (out', if txt \<noteq> None then written + 1 else written)))"

definition main :: "args \<Rightarrow> world \<Rightarrow> nat + run_result" where
  \<comment> \<open>\<open>Inl 1\<close> is \<open>sys.exit(1)\<close>\<close>
  "main a w =
     (case root_dir w of
        None \<Rightarrow> Inl 1
      | Some tree \<Rightarrow>
          (let root = args_root a;
               include_exts = resolve_include_exts (args_include a);
               exclude_dirs = resolve_exclude_dirs (args_exclude_dirs a);
               files = gather_files root include_exts exclude_dirs tree;
               (out, written) =
                 fold (export_file (files_io w) root (args_max_bytes a)) files
                   (write_header [] root files (args_toc a) (clock_now w), 0)
           in Inr \<lparr>output_doc = out,
                   written_count = written,
                   stdout_lines =
                     [''Export complete: '' @ args_output a,
                      ''Files successfully written: '' @ show_nat written @ ''/''
                        @ show_nat (length files)]\<rparr>))"

text \<open>
  The block of one candidate, as \<open>main\<close> writes it, and whether its load produced text.
\<close>

definition file_block :: "(string \<Rightarrow> file_io) \<Rightarrow> string \<Rightarrow> int \<Rightarrow> string \<Rightarrow> utext list" where
  "file_block fs root max_bytes f =
     (case read_text_safely fs f max_bytes of
        (txt, note) \<Rightarrow> write_file_block [] (relpath f root) txt note)"

definition loaded :: "(string \<Rightarrow> file_io) \<Rightarrow> int \<Rightarrow> string \<Rightarrow> bool" where
  "loaded fs max_bytes f = (fst (read_text_safely fs f max_bytes) \<noteq> None)"

section \<open>Properties of the string operations\<close>

lemma lower_char_idem: "lower_char (lower_char c) = lower_char c"
  by (auto simp: lower_char_def Let_def)

lemma lower_idem: "lower (lower s) = lower s"
  by (simp add: lower_def lower_char_idem)

lemma split_not_Nil: "split sep s \<noteq> []"
  by (induction s) (auto split: list.splits)

text \<open>
  The tokens of \<open>split\<close> are the pieces between the separators: joined with the separator
  they give the string back, and none of them contains the separator.
\<close>

lemma split_join: "join_with [sep] (split sep s) = s"
proof (induction s)
  case Nil
  show ?case by simp
next
  case (Cons c cs)
  obtain t ts where sp: "split sep cs = t # ts"
    using split_not_Nil [of sep cs] by (cases "split sep cs") auto
  with Cons show ?case by (cases ts) auto
qed

lemma split_no_sep: "t \<in> set (split sep s) \<Longrightarrow> sep \<notin> set t"
proof (induction s arbitrary: t)
  case Nil
  then show ?case by simp
next
  case (Cons c cs)
  obtain u us where sp: "split sep cs = u # us"
    using split_not_Nil [of sep cs] by (cases "split sep cs") auto
  with Cons show ?case by (auto split: if_splits)
qed

section \<open>Configuration: include replaces, exclude unions\<close>

text \<open>
  C1, as the code behaves. With \<open>--include "py"\<close>, a directory that lists \<open>a.py\<close>, \<open>b.js\<close>
  and \<open>Dockerfile\<close> yields two candidates, \<open>Dockerfile\<close> and \<open>a.py\<close>, in this order,
  whatever the root and the excluded directories: \<open>b.js\<close> is dropped because the include
  set is now \<open>py\<close> alone, and \<open>Dockerfile\<close> is kept because \<open>should_include\<close> accepts a
  special file name before it looks at the include set.
\<close>

theorem include_py_keeps_special_names:
  "gather_files root (resolve_include_exts ''py'') exclude_dirs
     (Dir [] [''a.py'', ''b.js'', ''Dockerfile''])
   = [path_join root ''Dockerfile'', path_join root ''a.py'']"
proof -
  have exts: "resolve_include_exts ''py'' = {''py''}"
    by (simp add: resolve_include_exts_def strip_def is_space_def lstrip_def lower_def
        lower_char_def)
  have sorted_names: "sort [''a.py'', ''b.js'', ''Dockerfile''] = [''Dockerfile'', ''a.py'', ''b.js'']"
    by code_simp
  show ?thesis
    by (simp add: exts sorted_names should_include_def lower_def lower_char_def
        SPECIAL_FILENAMES_def rsplit1_last_def char_of_eq_iff)
qed

text \<open>
  C1, as the specification states it, fails: the collector does not yield \<open>a.py\<close> alone,
  and \<open>Dockerfile\<close> is among the candidates.
\<close>

theorem include_py_not_only_a_py:
  "gather_files ''/r'' (resolve_include_exts ''py'') (resolve_exclude_dirs [])
     (Dir [] [''a.py'', ''b.js'', ''Dockerfile'']) \<noteq> [''/r/a.py'']
   \<and> ''/r/Dockerfile'' \<in> set (gather_files ''/r'' (resolve_include_exts ''py'')
         (resolve_exclude_dirs []) (Dir [] [''a.py'', ''b.js'', ''Dockerfile'']))"
  by code_simp

text \<open>
  C2. A non-empty \<open>--include\<close> list replaces the default extensions: the resolved set is
  exactly the set of its tokens that are not blank, each trimmed, lower-cased and stripped
  of its leading dots. A non-empty \<open>--exclude-dirs\<close> list is added to the default
  directories: the resolved set is the union of the default set with its trimmed tokens
  that are not blank.
\<close>

theorem include_replaces_exclude_unions:
  "(strip include \<noteq> [] \<longrightarrow>
      resolve_include_exts include =
        (\<lambda>x. lstrip CHR ''.'' (lower (strip x))) `
          {x \<in> set (split CHR '','' include). strip x \<noteq> []})
   \<and> (strip exclude \<noteq> [] \<longrightarrow>
      resolve_exclude_dirs exclude =
        DEFAULT_EXCLUDE_DIRS \<union> strip ` {x \<in> set (split CHR '','' exclude). strip x \<noteq> []})"
  by (auto simp: resolve_include_exts_def resolve_exclude_dirs_def)

theorem include_replaces_exclude_unions_witness:
  "strip ''.PY, js'' \<noteq> [] \<and> strip ''custom'' \<noteq> []
   \<and> resolve_include_exts ''.PY, js'' = {''py'', ''js''}
   \<and> resolve_exclude_dirs ''custom'' = DEFAULT_EXCLUDE_DIRS \<union> {''custom''}"
proof -
  have h1: "strip ''.PY, js'' \<noteq> []" by (simp add: strip_def is_space_def)
  have h2: "strip ''custom'' \<noteq> []" by (simp add: strip_def is_space_def)
  have t1: "{x \<in> set (split CHR '','' ''.PY, js''). strip x \<noteq> []} = {''.PY'', '' js''}"
    by (auto simp: strip_def is_space_def)
  have t2: "{x \<in> set (split CHR '','' ''custom''). strip x \<noteq> []} = {''custom''}"
    by (auto simp: strip_def is_space_def)
  have n1: "lstrip CHR ''.'' (lower (strip ''.PY'')) = ''py''"
    by (simp add: strip_def is_space_def lstrip_def lower_def lower_char_def char_of_eq_iff)
  have n2: "lstrip CHR ''.'' (lower (strip '' js'')) = ''js''"
    by (simp add: strip_def is_space_def lstrip_def lower_def lower_char_def char_of_eq_iff)
  have n3: "strip ''custom'' = ''custom''"
    by (simp add: strip_def is_space_def)
  from include_replaces_exclude_unions [of "''.PY, js''" "''custom''"] h1 h2 show ?thesis
    unfolding t1 t2 by (simp add: n1 n2 n3)
qed

section \<open>File collector: pruning and special names\<close>

lemma should_include_lower_only:
  "lower f = lower g \<Longrightarrow> should_include f exts = should_include g exts"
  by (simp add: should_include_def)

lemma gather_files_subdir:
  assumes "d \<notin> exclude_dirs" and "(d, sub) \<in> set dirnames"
  shows "set (gather_files (path_join dirpath d) include_exts exclude_dirs sub)
         \<subseteq> set (gather_files dirpath include_exts exclude_dirs (Dir dirnames filenames))"
  using assms by (simp only: gather_files.simps) force

lemma gather_files_member:
  "p \<in> set (gather_files dirpath include_exts exclude_dirs tree) \<Longrightarrow>
     \<exists>dp f. p = path_join dp f \<and> should_include f include_exts"
proof (induction dirpath include_exts exclude_dirs tree rule: gather_files.induct)
  case (1 dirpath include_exts exclude_dirs dirnames filenames)
  from "1.prems" consider
      (here) f where "f \<in> set filenames" "should_include f include_exts" "p = path_join dirpath f"
    | (below) d sub where "(d, sub) \<in> set (filter (\<lambda>(d, sub). d \<notin> exclude_dirs) (sort_key fst dirnames))"
        "p \<in> set (gather_files (path_join dirpath d) include_exts exclude_dirs sub)"
    by (simp only: gather_files.simps) auto
  then show ?case
  proof cases
    case here
    then show ?thesis by blast
  next
    case below
    from "1.IH" [OF below(1) _ below(2)] show ?thesis by simp
  qed
qed

text \<open>
  C8. Pruning compares directory names as they are. A directory whose name differs from
  an excluded name in letter case only, and is not itself in the exclude set, is not pruned:
  every candidate found below it is a candidate of the walk. File names, in contrast, are
  matched without regard to case: \<open>should_include\<close> depends on the lower-cased name only.
\<close>

theorem pruning_case_sensitive:
  assumes "e \<in> exclude_dirs" and "lower d = lower e" and "d \<notin> exclude_dirs"
    and "(d, sub) \<in> set dirnames"
  shows "set (gather_files (path_join dirpath d) include_exts exclude_dirs sub)
           \<subseteq> set (gather_files dirpath include_exts exclude_dirs (Dir dirnames filenames))
         \<and> (\<forall>f g. lower f = lower g \<longrightarrow>
               should_include f include_exts = should_include g include_exts)"
  using gather_files_subdir [OF assms(3,4)] should_include_lower_only by blast

theorem pruning_case_sensitive_witness:
  "''.git'' \<in> resolve_exclude_dirs [] \<and> lower ''.GIT'' = lower ''.git''
   \<and> ''.GIT'' \<notin> resolve_exclude_dirs []
   \<and> (''.GIT'', Dir [] [''notes.TXT'']) \<in> set [(''.git'', Dir [] [''notes.txt'']), (''.GIT'', Dir [] [''notes.TXT''])]
   \<and> ''/r/.GIT/notes.TXT'' \<in> set (gather_files ''/r'' (resolve_include_exts []) (resolve_exclude_dirs [])
         (Dir [(''.git'', Dir [] [''notes.txt'']), (''.GIT'', Dir [] [''notes.TXT''])] []))
   \<and> gather_files ''/r'' (resolve_include_exts []) (resolve_exclude_dirs [])
         (Dir [(''.git'', Dir [] [''notes.txt'']), (''.GIT'', Dir [] [''notes.TXT''])] [])
       = [''/r/.GIT/notes.TXT'']"
proof -
  have h1: "''.git'' \<in> resolve_exclude_dirs []"
    by (simp add: resolve_exclude_dirs_def strip_def DEFAULT_EXCLUDE_DIRS_def)
  have h2: "lower ''.GIT'' = lower ''.git''"
    by (simp add: lower_def lower_char_def char_of_eq_iff)
  have h3: "''.GIT'' \<notin> resolve_exclude_dirs []"
    by (simp add: resolve_exclude_dirs_def strip_def DEFAULT_EXCLUDE_DIRS_def)
  have h4: "(''.GIT'', Dir [] [''notes.TXT'']) \<in> set [(''.git'', Dir [] [''notes.txt'']), (''.GIT'', Dir [] [''notes.TXT''])]"
    by simp
  have sub: "gather_files (path_join ''/r'' ''.GIT'') (resolve_include_exts []) (resolve_exclude_dirs [])
       (Dir [] [''notes.TXT'']) = [''/r/.GIT/notes.TXT'']"
    by code_simp
  have whole: "gather_files ''/r'' (resolve_include_exts []) (resolve_exclude_dirs [])
         (Dir [(''.git'', Dir [] [''notes.txt'']), (''.GIT'', Dir [] [''notes.TXT''])] [])
       = [''/r/.GIT/notes.TXT'']"
    by code_simp
  have "set (gather_files (path_join ''/r'' ''.GIT'') (resolve_include_exts []) (resolve_exclude_dirs [])
           (Dir [] [''notes.TXT'']))
        \<subseteq> set (gather_files ''/r'' (resolve_include_exts []) (resolve_exclude_dirs [])
           (Dir [(''.git'', Dir [] [''notes.txt'']), (''.GIT'', Dir [] [''notes.TXT''])] []))"
    using pruning_case_sensitive [OF h1 h2 h3 h4, of "''/r''" "resolve_include_exts []" "[]"] by (rule conjunct1)
  then have m: "''/r/.GIT/notes.TXT'' \<in> set (gather_files ''/r'' (resolve_include_exts [])
         (resolve_exclude_dirs [])
         (Dir [(''.git'', Dir [] [''notes.txt'']), (''.GIT'', Dir [] [''notes.TXT''])] []))"
    unfolding sub by (simp only: list.set insert_subset)
  show ?thesis
    by (intro conjI h1 h2 h3 h4 m whole)
qed

text \<open>
  C10. When \<open>--include\<close> is not blank but each of its tokens is, the include set is
  empty, \<open>should_include\<close> accepts exactly the names that are \<open>dockerfile\<close> or
  \<open>jenkinsfile\<close> in lower case, and every candidate of the walk is such a file.
\<close>

theorem blank_include_only_special_names:
  assumes "strip include \<noteq> []" and "\<forall>x\<in>set (split CHR '','' include). strip x = []"
  shows "resolve_include_exts include = {}
    \<and> (\<forall>f. should_include f (resolve_include_exts include)
             = (lower f \<in> {''dockerfile'', ''jenkinsfile''}))
    \<and> (\<forall>p\<in>set (gather_files root (resolve_include_exts include) exclude_dirs tree).
          \<exists>dirpath f. p = path_join dirpath f \<and> lower f \<in> {''dockerfile'', ''jenkinsfile''})"
proof -
  from assms have e: "resolve_include_exts include = {}"
    by (simp add: resolve_include_exts_def filter_empty_conv)
  have s: "should_include f {} = (lower f \<in> {''dockerfile'', ''jenkinsfile''})" for f
    by (simp add: should_include_def SPECIAL_FILENAMES_def Let_def)
  have g: "\<exists>dirpath f. p = path_join dirpath f \<and> lower f \<in> {''dockerfile'', ''jenkinsfile''}"
    if "p \<in> set (gather_files root {} exclude_dirs tree)" for p
    using gather_files_member [OF that] unfolding s .
  show ?thesis
    unfolding e using s g by blast
qed

theorem blank_include_only_special_names_witness:
  "strip '','' \<noteq> [] \<and> map strip (split CHR '','' '','') = [[], []]
   \<and> resolve_include_exts '','' = {}
   \<and> should_include ''Dockerfile'' (resolve_include_exts '','')
        = (lower ''Dockerfile'' \<in> {''dockerfile'', ''jenkinsfile''})
   \<and> gather_files ''/r'' (resolve_include_exts '','') (resolve_exclude_dirs [])
         (Dir [] [''a.py'', ''Jenkinsfile'', ''Dockerfile'']) = [''/r/Dockerfile'', ''/r/Jenkinsfile'']"
proof -
  have h1: "strip '','' \<noteq> []" by (simp add: strip_def is_space_def)
  have h2: "\<forall>x\<in>set (split CHR '','' '',''). strip x = []" by (simp add: strip_def)
  have g: "gather_files ''/r'' (resolve_include_exts '','') (resolve_exclude_dirs [])
         (Dir [] [''a.py'', ''Jenkinsfile'', ''Dockerfile'']) = [''/r/Dockerfile'', ''/r/Jenkinsfile'']"
    by code_simp
  note c = blank_include_only_special_names [OF h1 h2, of "''/r''" "resolve_exclude_dirs []" "Dir [] [''a.py'', ''Jenkinsfile'', ''Dockerfile'']"]
  from c have c1: "resolve_include_exts '','' = {}" by (rule conjunct1)
  from c have c2: "should_include ''Dockerfile'' (resolve_include_exts '','')
        = (lower ''Dockerfile'' \<in> {''dockerfile'', ''jenkinsfile''})"
    by (elim conjE allE [of _ "''Dockerfile''"])
  have h3: "map strip (split CHR '','' '','') = [[], []]" by (simp add: strip_def)
  show ?thesis
    by (intro conjI h1 h3 c1 c2 g)
qed

section \<open>Content loader: skips and errors\<close>

lemma size_note_not_error: "size_note a b \<noteq> error_note e"
  by (simp add: size_note_def error_note_def)
lemma size_note_not_binary: "size_note a b \<noteq> binary_note"
  by (simp add: size_note_def binary_note_def)
lemma size_note_not_latin1: "size_note a b \<noteq> latin1_note"
  by (simp add: size_note_def latin1_note_def)

text \<open>
  C3, as the code behaves. An error of the size check, or of the read of the whole file, is
  caught by \<open>read_text_safely\<close> and gives the skip reason that carries the text of the
  error. An error of the binary sniff is caught inside \<open>looks_binary\<close>, which answers
  "binary", so the skip reason is the one for binary files. Bytes that were read always
  decode, as UTF-8 or else as Latin-1. In each case the loader returns a result.
\<close>

theorem loader_errors_become_skips:
  "(getsize (fs p) = Inl e \<longrightarrow> read_text_safely fs p m = (None, Some (error_note e)))
   \<and> (getsize (fs p) = Inr sz \<and> sz \<le> m \<and> read_prefix (fs p) 2048 = Inl e \<longrightarrow>
        read_text_safely fs p m = (None, Some binary_note))
   \<and> (getsize (fs p) = Inr sz \<and> sz \<le> m \<and> read_prefix (fs p) 2048 = Inr chunk \<and> 0 \<notin> set chunk
        \<and> read_whole (fs p) = Inl e \<longrightarrow>
        read_text_safely fs p m = (None, Some (error_note e)))
   \<and> (getsize (fs p) = Inr sz \<and> sz \<le> m \<and> read_prefix (fs p) 2048 = Inr chunk \<and> 0 \<notin> set chunk
        \<and> read_whole (fs p) = Inr data \<longrightarrow>
        fst (read_text_safely fs p m) \<noteq> None)"
  by (auto simp: read_text_safely_def read_text_safely_io_def looks_binary_io_def
      split: option.splits)

theorem loader_errors_become_skips_witness:
  "read_text_safely
     (\<lambda>p. \<lparr>getsize = Inl ''[Errno 2] No such file or directory'',
           read_prefix = (\<lambda>n. Inr []), read_whole = Inr []\<rparr>) ''/r/a.py'' 100
     = (None, Some ''IGNORED (error reading: [Errno 2] No such file or directory)'')
   \<and> read_text_safely
     (\<lambda>p. \<lparr>getsize = Inr 3,
           read_prefix = (\<lambda>n. Inl ''[Errno 13] Permission denied''),
           read_whole = Inr [97, 98, 99]\<rparr>) ''/r/a.py'' 100
     = (None, Some ''IGNORED (binary file)'')
   \<and> read_text_safely
     (\<lambda>p. \<lparr>getsize = Inr 3,
           read_prefix = (\<lambda>n. Inr [97, 98, 99]),
           read_whole = Inl ''[Errno 5] Input/output error''\<rparr>) ''/r/a.py'' 100
     = (None, Some ''IGNORED (error reading: [Errno 5] Input/output error)'')
   \<and> fst (read_text_safely (\<lambda>p. plain_file [97, 233]) ''/r/a.py'' 100) \<noteq> None"
  using
    loader_errors_become_skips [of "\<lambda>p. \<lparr>getsize = Inl ''[Errno 2] No such file or directory'',
           read_prefix = (\<lambda>n. Inr []), read_whole = Inr []\<rparr>" "''/r/a.py''"
        "''[Errno 2] No such file or directory''" 100]
    loader_errors_become_skips [of "\<lambda>p. \<lparr>getsize = Inr 3,
           read_prefix = (\<lambda>n. Inl ''[Errno 13] Permission denied''),
           read_whole = Inr [97, 98, 99]\<rparr>" "''/r/a.py''" "''[Errno 13] Permission denied''" 100 3]
    loader_errors_become_skips [of "\<lambda>p. \<lparr>getsize = Inr 3,
           read_prefix = (\<lambda>n. Inr [97, 98, 99]),
           read_whole = Inl ''[Errno 5] Input/output error''\<rparr>" "''/r/a.py''"
        "''[Errno 5] Input/output error''" 100 3 "[97, 98, 99]"]
    loader_errors_become_skips [of "\<lambda>p. plain_file [97, 233]" "''/r/a.py''" "[]" 100 2 "[97, 233]" "[97, 233]"]
  by (simp add: plain_file_def error_note_def binary_note_def)

text \<open>
  C3, as the specification states it, fails: a file whose size can be read but which
  cannot be opened (permission denied) is reported as a binary file, not as a read error.
\<close>

theorem sniff_error_reported_as_binary:
  "read_text_safely
     (\<lambda>p. \<lparr>getsize = Inr 10,
           read_prefix = (\<lambda>n. Inl ''[Errno 13] Permission denied''),
           read_whole = Inl ''[Errno 13] Permission denied''\<rparr>)
     ''/r/a.py'' 1000000
   = (None, Some ''IGNORED (binary file)'')
   \<and> snd (read_text_safely
     (\<lambda>p. \<lparr>getsize = Inr 10,
           read_prefix = (\<lambda>n. Inl ''[Errno 13] Permission denied''),
           read_whole = Inl ''[Errno 13] Permission denied''\<rparr>)
     ''/r/a.py'' 1000000) \<noteq> Some (error_note ''[Errno 13] Permission denied'')"
  by (simp add: read_text_safely_def read_text_safely_io_def looks_binary_io_def binary_note_def error_note_def)

text \<open>
  C6. A file larger than the limit is skipped with the size reason, which carries the size
  and the limit. The only operation on the file system is the size check: the file is
  neither sampled nor read. The exporter writes the start marker with the reason and the
  separator, nothing else, and does not count the file as written.
\<close>

theorem oversize_skipped_unread:
  "getsize (fs p) = Inr sz \<Longrightarrow> sz > m \<Longrightarrow>
     read_text_safely_io fs p m = ((None, Some (size_note sz m)), [Stat p])
     \<and> export_file fs root m p (out, written) =
         (out @ [str ''===== FILE: '' @ str (relpath p root) @ str '' ('' @ str (size_note sz m)
                   @ str '') ====='' @ [10],
                 str (replicate 80 CHR ''-'') @ [10, 10]], written)"
  by (simp add: read_text_safely_io_def read_text_safely_def export_file_def write_file_block_def fmt_note_def)

theorem oversize_skipped_unread_witness:
  "getsize (plain_file [97, 98, 99]) = Inr 3 \<and> (3::int) > 2
   \<and> read_text_safely_io (\<lambda>p. plain_file [97, 98, 99]) ''/r/a.py'' 2
       = ((None, Some ''IGNORED (size 3 > 2 bytes)''), [Stat ''/r/a.py''])
   \<and> export_file (\<lambda>p. plain_file [97, 98, 99]) ''/r'' 2 ''/r/a.py'' ([], 0)
       = ([str ''===== FILE: a.py (IGNORED (size 3 > 2 bytes)) ====='' @ [10],
           str (replicate 80 CHR ''-'') @ [10, 10]], 0)"
proof -
  have n: "size_note 3 2 = ''IGNORED (size 3 > 2 bytes)''"
    by (simp add: size_note_def show_int_def show_nat.simps digit_def char_of_eq_iff)
  have r: "relpath ''/r/a.py'' ''/r'' = ''a.py''"
    by (simp add: relpath_def)
  have g: "getsize (plain_file [97, 98, 99]) = Inr 3" by (simp add: plain_file_def)
  from oversize_skipped_unread [of "\<lambda>p. plain_file [97, 98, 99]" "''/r/a.py''" 3 2 "''/r''" "[]" 0, OF g] g
  show ?thesis by (simp add: n r str_def)
qed

text \<open>
  C7. If the size is within the limit and the sample of the first 2048 bytes holds a null
  byte, the loader skips the file as binary, whatever its path.
\<close>

theorem null_byte_is_binary:
  "getsize (fs p) = Inr sz \<Longrightarrow> sz \<le> m \<Longrightarrow> read_prefix (fs p) 2048 = Inr chunk \<Longrightarrow> 0 \<in> set chunk \<Longrightarrow>
     read_text_safely fs p m = (None, Some binary_note)"
  by (simp add: read_text_safely_io_def read_text_safely_def looks_binary_io_def)

theorem null_byte_is_binary_witness:
  "getsize (plain_file [137, 80, 78, 71, 0, 1]) = Inr 6 \<and> (6::int) \<le> 1000000
   \<and> read_prefix (plain_file [137, 80, 78, 71, 0, 1]) 2048 = Inr [137, 80, 78, 71, 0, 1]
   \<and> (0::byte) \<in> set [137, 80, 78, 71, 0, 1]
   \<and> read_text_safely (\<lambda>p. plain_file [137, 80, 78, 71, 0, 1]) ''/r/a.py'' 1000000
       = (None, Some ''IGNORED (binary file)'')"
  using null_byte_is_binary [of "\<lambda>p. plain_file [137, 80, 78, 71, 0, 1]" "''/r/a.py''" 6 1000000 "[137, 80, 78, 71, 0, 1]"]
  by (simp add: plain_file_def binary_note_def)

text \<open>
  C9. A file whose size equals the limit is not skipped for its size. The loader goes on
  to sample the first 2048 bytes and, unless the sample looks binary, to read and decode
  the file: the result is the binary reason if the sample cannot be read or holds a null
  byte, the read error if the file cannot be read, and otherwise the text, decoded as
  UTF-8 or, failing that, as Latin-1 with its note.
\<close>

theorem size_limit_exclusive:
  "getsize (fs p) = Inr m \<Longrightarrow>
     snd (read_text_safely fs p m) \<noteq> Some (size_note m m)
     \<and> take 2 (snd (read_text_safely_io fs p m)) = [Stat p, ReadPrefix p 2048]
     \<and> (looks_binary fs p 2048 \<or> snd (read_text_safely_io fs p m) = [Stat p, ReadPrefix p 2048, ReadWhole p])
     \<and> read_text_safely fs p m =
         (case read_prefix (fs p) 2048 of
            Inl e \<Rightarrow> (None, Some binary_note)
          | Inr chunk \<Rightarrow>
              if 0 \<in> set chunk then (None, Some binary_note)
              else (case read_whole (fs p) of
                      Inl e \<Rightarrow> (None, Some (error_note e))
                    | Inr data \<Rightarrow>
                        (case utf8_decode data of
                           Some t \<Rightarrow> (Some t, None)
                         | None \<Rightarrow> (Some (latin1_decode data), Some latin1_note))))"
  by (auto simp: read_text_safely_io_def read_text_safely_def looks_binary_io_def looks_binary_def
      size_note_not_error size_note_not_binary size_note_not_latin1
      size_note_not_error [symmetric] size_note_not_binary [symmetric] size_note_not_latin1 [symmetric]
      split: sum.splits option.splits bool.splits)

theorem size_limit_exclusive_witness:
  "getsize (plain_file [99, 97, 102, 195, 169]) = Inr 5
   \<and> read_text_safely_io (\<lambda>p. plain_file [99, 97, 102, 195, 169]) ''/r/a.py'' 5
       = ((Some [99, 97, 102, 233], None),
          [Stat ''/r/a.py'', ReadPrefix ''/r/a.py'' 2048, ReadWhole ''/r/a.py''])
   \<and> getsize (plain_file [97, 233]) = Inr 2
   \<and> read_text_safely (\<lambda>p. plain_file [97, 233]) ''/r/a.py'' 2
       = (Some [97, 233], Some ''NOTE (decoded as latin-1 with replacements)'')
   \<and> getsize (plain_file [97, 0]) = Inr 2
   \<and> read_text_safely (\<lambda>p. plain_file [97, 0]) ''/r/a.py'' 2
       = (None, Some ''IGNORED (binary file)'')
   \<and> read_text_safely (\<lambda>p. plain_file [97, 98, 99]) ''/r/a.py'' 2
       = (None, Some ''IGNORED (size 3 > 2 bytes)'')"
proof -
  have n: "size_note 3 2 = ''IGNORED (size 3 > 2 bytes)''"
    by (simp add: size_note_def show_int_def show_nat.simps digit_def char_of_eq_iff)
  have g1: "getsize (plain_file [99, 97, 102, 195, 169]) = Inr 5" by (simp add: plain_file_def)
  have g2: "getsize (plain_file [97, 233]) = Inr 2" by (simp add: plain_file_def)
  have g3: "getsize (plain_file [97, 0]) = Inr 2" by (simp add: plain_file_def)
  have over: "read_text_safely (\<lambda>p. plain_file [97, 98, 99]) ''/r/a.py'' 2
       = (None, Some ''IGNORED (size 3 > 2 bytes)'')"
    by (simp add: read_text_safely_def read_text_safely_io_def plain_file_def n)
  have a: "read_text_safely_io (\<lambda>p. plain_file [99, 97, 102, 195, 169]) ''/r/a.py'' 5
       = ((Some [99, 97, 102, 233], None),
          [Stat ''/r/a.py'', ReadPrefix ''/r/a.py'' 2048, ReadWhole ''/r/a.py''])"
    using size_limit_exclusive [of "\<lambda>p. plain_file [99, 97, 102, 195, 169]" "''/r/a.py''" 5, OF g1]
    by (simp add: read_text_safely_def looks_binary_def looks_binary_io_def plain_file_def
        is_cont_def prod_eq_iff)
  have b: "read_text_safely (\<lambda>p. plain_file [97, 233]) ''/r/a.py'' 2
       = (Some [97, 233], Some ''NOTE (decoded as latin-1 with replacements)'')"
    using size_limit_exclusive [of "\<lambda>p. plain_file [97, 233]" "''/r/a.py''" 2, OF g2]
    by (simp add: plain_file_def is_cont_def latin1_decode_def latin1_note_def)
  have c: "read_text_safely (\<lambda>p. plain_file [97, 0]) ''/r/a.py'' 2
       = (None, Some ''IGNORED (binary file)'')"
    using size_limit_exclusive [of "\<lambda>p. plain_file [97, 0]" "''/r/a.py''" 2, OF g3]
    by (simp add: plain_file_def binary_note_def)
  show ?thesis by (intro conjI g1 a g2 b g3 c over)
qed

section \<open>Exporter: wrapping\<close>

text \<open>
  Apart from the expansion of tabs, the wrapper only cuts a line: the wrapped lines,
  concatenated, are the line. An empty line is written as one empty line.
\<close>

lemma expandtabs_no_tab: "9 \<notin> set s \<Longrightarrow> expandtabs tabsize col s = s"
  by (induction s arbitrary: col) auto

lemma concat_split_chunks: "concat (split_chunks s) = s"
  by (induction s) (auto split: list.splits)

lemma wrap_step_concat:
  assumes "wrap_step w chunks = (cur_line, rest)"
  shows "concat cur_line @ concat rest = concat chunks"
proof -
  obtain cl m r where tf: "take_fitting w 0 chunks = (cl, m, r)"
    by (cases "take_fitting w 0 chunks") auto
  have sp: "chunks = cl @ r" using take_fitting_split [OF tf] .
  show ?thesis
  proof (cases r)
    case Nil
    with assms tf sp show ?thesis by (simp add: wrap_step_def)
  next
    case (Cons c others)
    with assms tf sp show ?thesis
      by (auto simp: wrap_step_def handle_long_word_def Let_def split: if_splits)
  qed
qed

lemma wrap_lines_Nil [simp]: "wrap_lines w [] = []"
  by (subst wrap_lines.simps) simp

lemma concat_wrap_lines: "0 < w \<Longrightarrow> concat (wrap_lines w chunks) = concat chunks"
proof (induction w chunks rule: wrap_lines.induct)
  case (1 width chunks)
  show ?case
  proof (cases "chunks = []")
    case True
    then show ?thesis by simp
  next
    case False
    obtain cl rest where ws: "wrap_step width chunks = (cl, rest)"
      by (cases "wrap_step width chunks") auto
    from "1.prems" False have c: "\<not> (chunks = [] \<or> width = 0)" by simp
    have ih: "concat (wrap_lines width rest) = concat rest"
      using "1.IH" [OF c ws [symmetric] "1.prems"] .
    have "wrap_lines width chunks = (if cl \<noteq> [] then [concat cl] else []) @ wrap_lines width rest"
      using c ws by (subst wrap_lines.simps) simp
    then have "concat (wrap_lines width chunks) = concat cl @ concat rest"
      using ih by auto
    with wrap_step_concat [OF ws] show ?thesis by simp
  qed
qed

lemma wrapper_wrap_no_tab: "9 \<notin> set raw \<Longrightarrow> concat (wrapper_wrap raw) = raw"
  by (simp add: wrapper_wrap_def expandtabs_no_tab concat_wrap_lines concat_split_chunks)

lemma wrapper_wrap_empty: "wrapper_wrap [] = []"
  by (simp add: wrapper_wrap_def)

lemma write_body_line_empty: "write_body_line [] out = out @ [[10]]"
  by (simp add: write_body_line_def wrapper_wrap_empty)

text \<open>
  C4. A line that holds a tab is not reconstructed from its wrapped lines: the wrapper
  expands the tab to spaces up to the next multiple of eight columns, since \<open>expand_tabs\<close>
  is left at its default. A file with the line \<open>a<TAB>b\<close> is loaded as text, and the body
  of its block holds \<open>a\<close>, seven spaces and \<open>b\<close>.
\<close>

theorem tab_line_not_reconstructed:
  "read_text_safely (\<lambda>p. plain_file [97, 9, 98, 10]) ''/r/m.txt'' 1000000
     = (Some [97, 9, 98, 10], None)
   \<and> splitlines [97, 9, 98, 10] = [[97, 9, 98]]
   \<and> wrapper_wrap [97, 9, 98] = [[97, 32, 32, 32, 32, 32, 32, 32, 98]]
   \<and> concat (wrapper_wrap [97, 9, 98]) \<noteq> [97, 9, 98]"
proof -
  have l: "read_text_safely (\<lambda>p. plain_file [97, 9, 98, 10]) ''/r/m.txt'' 1000000
     = (Some [97, 9, 98, 10], None)"
    by (simp add: read_text_safely_def read_text_safely_io_def looks_binary_io_def plain_file_def)
  have s: "splitlines [97, 9, 98, 10] = [[97, 9, 98]]"
    by (simp add: is_linebreak_def)
  have w: "wrapper_wrap [97, 9, 98] = [[97, 32, 32, 32, 32, 32, 32, 32, 98]]"
    by code_simp
  show ?thesis
    unfolding w using l s by simp
qed

section \<open>Exporter: one block for each candidate\<close>

lemma fold_write_body_line:
  "fold write_body_line ls out = out @ fold write_body_line ls []"
proof (induction ls arbitrary: out)
  case Nil
  show ?case by simp
next
  case (Cons l ls)
  have "fold write_body_line (l # ls) out = fold write_body_line ls (write_body_line l out)"
    by simp
  also have "\<dots> = write_body_line l out @ fold write_body_line ls []"
    by (rule Cons.IH)
  also have "write_body_line l out = out @ write_body_line l []"
    by (simp add: write_body_line_def Let_def)
  finally have a: "fold write_body_line (l # ls) out
      = out @ write_body_line l [] @ fold write_body_line ls []" by simp
  have "fold write_body_line (l # ls) [] = write_body_line l [] @ fold write_body_line ls []"
    using Cons.IH [of "write_body_line l []"] by simp
  with a show ?case by simp
qed

lemma write_file_block_append:
  "write_file_block out rel txt note = out @ write_file_block [] rel txt note"
proof (cases "txt")
  case None
  then show ?thesis by (simp add: write_file_block_def)
next
  case (Some t)
  have 1: "fold write_body_line ls (out @ hdr) = out @ hdr @ fold write_body_line ls []"
    for ls hdr
    using fold_write_body_line [of ls "out @ hdr"] by simp
  have 2: "fold write_body_line ls (x # y # []) = x # y # fold write_body_line ls []"
    for ls x y
    using fold_write_body_line [of ls "[x, y]"] by simp
  show ?thesis
    unfolding write_file_block_def Let_def Some option.case append_Nil 1 2
    by simp
qed

lemma export_file_step:
  "export_file fs root m f (out, written)
     = (out @ file_block fs root m f, written + (if loaded fs m f then 1 else 0))"
proof -
  obtain t n where r: "read_text_safely fs f m = (t, n)"
    by (cases "read_text_safely fs f m") auto
  show ?thesis
    unfolding export_file_def file_block_def loaded_def r Let_def prod.case fst_conv
    by (subst write_file_block_append) simp
qed

lemma fold_export_file:
  "fold (export_file fs root m) files (out, written)
     = (out @ concat (map (file_block fs root m) files),
        written + length (filter (loaded fs m) files))"
proof (induction files arbitrary: out written)
  case Nil
  show ?case by simp
next
  case (Cons f files)
  show ?case
    by (simp only: fold_simps export_file_step Cons.IH) simp
qed

lemma fold_write_body_line_map:
  "fold write_body_line ls out
     = out @ map (\<lambda>raw. (if wrapper_wrap raw = [] then [] else join_with [10] (wrapper_wrap raw))
                          @ [10]) ls"
  by (induction ls arbitrary: out) (simp_all add: write_body_line_def Let_def)

lemma file_block_shape:
  "file_block fs root m f =
     (case read_text_safely fs f m of
        (None, note) \<Rightarrow>
          [str ''===== FILE: '' @ str (relpath f root) @ str '' ('' @ fmt_note note
             @ str '') ====='' @ [10],
           str (replicate 80 CHR ''-'') @ [10, 10]]
      | (Some t, note) \<Rightarrow>
          [str ''===== FILE: '' @ str (relpath f root) @ str '' ====='' @ [10],
           str (replicate 80 CHR ''-'') @ [10]]
          @ map (\<lambda>raw. (if wrapper_wrap raw = [] then []
                         else join_with [10] (wrapper_wrap raw)) @ [10]) (splitlines t)
          @ [str (replicate 80 CHR ''-'') @ [10],
             str ''===== END FILE: '' @ str (relpath f root) @ str '' ====='' @ [10, 10]])"
  by (simp add: file_block_def write_file_block_def Let_def fold_write_body_line_map
      split: prod.splits option.splits)

lemma sep_not_end_marker:
  "str (replicate 80 CHR ''-'') @ xs \<noteq> str ''===== END FILE: '' @ ys"
proof -
  have "replicate 80 CHR ''-'' = CHR ''-'' # replicate 79 CHR ''-''"
    by (simp add: numeral_eq_Suc)
  then show ?thesis by (simp add: str_def)
qed

lemma last_file_block:
  "(last (file_block fs root m f)
      = str ''===== END FILE: '' @ str (relpath f root) @ str '' ====='' @ [10, 10])
   = loaded fs m f"
proof (cases "read_text_safely fs f m")
  case (Pair t n)
  show ?thesis
  proof (cases t)
    case None
    with Pair show ?thesis
      using sep_not_end_marker [of "[10, 10]" "str (relpath f root) @ str '' ====='' @ [10, 10]"]
      by (simp add: file_block_shape loaded_def)
  next
    case (Some u)
    with Pair show ?thesis
      by (simp add: file_block_shape loaded_def)
  qed
qed

text \<open>
  C5. When the root is a directory, \<open>main\<close> returns the document that consists of the
  header followed by the blocks of the candidates, one block for each candidate, in the
  order of the candidate list; the counter of written files, which is also the one
  reported on standard output, is the number of candidates whose load produced text.
  The block of a candidate is never empty. For a skipped candidate it is the start marker
  with the relative path and the reason, and the separator. For a loaded candidate it is
  the start marker with the relative path, the separator, one written line for each line
  of the text, the separator, and the end marker with the relative path. So a block ends
  with its end marker exactly when the load produced text.
\<close>

theorem one_block_per_candidate:
  assumes "root_dir w = Some tree"
    and "files = gather_files (args_root a) (resolve_include_exts (args_include a))
                   (resolve_exclude_dirs (args_exclude_dirs a)) tree"
    and "fs = files_io w" and "m = args_max_bytes a" and "root = args_root a"
  shows "main a w = Inr
     \<lparr>output_doc = write_header [] root files (args_toc a) (clock_now w)
                    @ concat (map (file_block fs root m) files),
      written_count = length (filter (loaded fs m) files),
      stdout_lines =
        [''Export complete: '' @ args_output a,
         ''Files successfully written: '' @ show_nat (length (filter (loaded fs m) files))
           @ ''/'' @ show_nat (length files)]\<rparr>
    \<and> (\<forall>f. file_block fs root m f =
         (case read_text_safely fs f m of
            (None, note) \<Rightarrow>
              [str ''===== FILE: '' @ str (relpath f root) @ str '' ('' @ fmt_note note
                 @ str '') ====='' @ [10],
               str (replicate 80 CHR ''-'') @ [10, 10]]
          | (Some t, note) \<Rightarrow>
              [str ''===== FILE: '' @ str (relpath f root) @ str '' ====='' @ [10],
               str (replicate 80 CHR ''-'') @ [10]]
              @ map (\<lambda>raw. (if wrapper_wrap raw = [] then []
                             else join_with [10] (wrapper_wrap raw)) @ [10]) (splitlines t)
              @ [str (replicate 80 CHR ''-'') @ [10],
                 str ''===== END FILE: '' @ str (relpath f root) @ str '' ====='' @ [10, 10]]))
    \<and> (\<forall>f. file_block fs root m f \<noteq> []
            \<and> (last (file_block fs root m f)
                  = str ''===== END FILE: '' @ str (relpath f root) @ str '' ====='' @ [10, 10])
                = loaded fs m f)"
proof -
  have 1: "main a w = Inr
     \<lparr>output_doc = write_header [] root files (args_toc a) (clock_now w)
                    @ concat (map (file_block fs root m) files),
      written_count = length (filter (loaded fs m) files),
      stdout_lines =
        [''Export complete: '' @ args_output a,
         ''Files successfully written: '' @ show_nat (length (filter (loaded fs m) files))
           @ ''/'' @ show_nat (length files)]\<rparr>"
    using assms by (simp add: main_def Let_def fold_export_file)
  have 2: "file_block fs root m f \<noteq> []" for f
    by (simp add: file_block_shape split: prod.splits option.splits)
  show ?thesis
    using 1 2 file_block_shape [of fs root m] last_file_block [of fs root m] by blast
qed

theorem one_block_per_candidate_witness:
  "root_dir \<lparr>root_dir = Some (Dir [] [''b.txt'', ''a.txt'']),
             files_io = (\<lambda>p. if p = ''/r/a.txt'' then plain_file [104, 105, 10, 10, 121, 111]
                              else plain_file [0]),
             clock_now = ''2026-01-01T00:00:00''\<rparr> = Some (Dir [] [''b.txt'', ''a.txt''])
   \<and> main \<lparr>args_root = ''/r'', args_output = ''/o/local.txt'', args_max_bytes = 1000000,
            args_include = [], args_exclude_dirs = [], args_toc = True\<rparr>
          \<lparr>root_dir = Some (Dir [] [''b.txt'', ''a.txt'']),
           files_io = (\<lambda>p. if p = ''/r/a.txt'' then plain_file [104, 105, 10, 10, 121, 111]
                            else plain_file [0]),
           clock_now = ''2026-01-01T00:00:00''\<rparr>
     = Inr \<lparr>output_doc =
              [str ''# TEXT EXPORT OF PROJECT'' @ [10],
               str ''Root: /r'' @ [10],
               str ''Generated: 2026-01-01T00:00:00'' @ [10],
               str ''Files found: 2'' @ [10],
               str (replicate 80 CHR ''#'') @ [10, 10],
               str ''TABLE OF CONTENTS'' @ [10],
               str ''0001. a.txt'' @ [10],
               str ''0002. b.txt'' @ [10],
               [10] @ str (replicate 80 CHR ''#'') @ [10, 10],
               str ''===== FILE: a.txt ====='' @ [10],
               str (replicate 80 CHR ''-'') @ [10],
               str ''hi'' @ [10],
               [10],
               str ''yo'' @ [10],
               str (replicate 80 CHR ''-'') @ [10],
               str ''===== END FILE: a.txt ====='' @ [10, 10],
               str ''===== FILE: b.txt (IGNORED (binary file)) ====='' @ [10],
               str (replicate 80 CHR ''-'') @ [10, 10]],
            written_count = 1,
            stdout_lines = [''Export complete: /o/local.txt'',
                            ''Files successfully written: 1/2'']\<rparr>"
proof -
  let ?fs = "\<lambda>p. if p = ''/r/a.txt'' then plain_file [104, 105, 10, 10, 121, 111]
                  else plain_file [0]"
  let ?w = "\<lparr>root_dir = Some (Dir [] [''b.txt'', ''a.txt'']), files_io = ?fs,
             clock_now = ''2026-01-01T00:00:00''\<rparr>"
  let ?a = "\<lparr>args_root = ''/r'', args_output = ''/o/local.txt'', args_max_bytes = 1000000,
             args_include = [], args_exclude_dirs = [], args_toc = True\<rparr>"
  have h: "root_dir ?w = Some (Dir [] [''b.txt'', ''a.txt''])" by simp
  have g: "gather_files ''/r'' (resolve_include_exts []) (resolve_exclude_dirs [])
             (Dir [] [''b.txt'', ''a.txt'']) = [''/r/a.txt'', ''/r/b.txt'']"
    by code_simp
  have ra: "read_text_safely ?fs ''/r/a.txt'' 1000000 = (Some [104, 105, 10, 10, 121, 111], None)"
    by (simp add: read_text_safely_def read_text_safely_io_def looks_binary_io_def plain_file_def)
  have rb: "read_text_safely ?fs ''/r/b.txt'' 1000000 = (None, Some ''IGNORED (binary file)'')"
    by (simp add: read_text_safely_def read_text_safely_io_def looks_binary_io_def plain_file_def
        binary_note_def)
  have pa: "relpath ''/r/a.txt'' ''/r'' = ''a.txt''" by (simp add: relpath_def)
  have pb: "relpath ''/r/b.txt'' ''/r'' = ''b.txt''" by (simp add: relpath_def)
  have n1: "show_nat (Suc 0) = ''1''"
    by (simp add: show_nat.simps digit_def char_of_eq_iff)
  have n2: "show_nat (Suc (Suc 0)) = ''2''"
    by (simp add: show_nat.simps digit_def char_of_eq_iff)
  have hdr: "write_header [] ''/r'' [''/r/a.txt'', ''/r/b.txt''] True ''2026-01-01T00:00:00''
    = [str ''# TEXT EXPORT OF PROJECT'' @ [10],
       str ''Root: /r'' @ [10],
       str ''Generated: 2026-01-01T00:00:00'' @ [10],
       str ''Files found: 2'' @ [10],
       str (replicate 80 CHR ''#'') @ [10, 10],
       str ''TABLE OF CONTENTS'' @ [10],
       str ''0001. a.txt'' @ [10],
       str ''0002. b.txt'' @ [10],
       [10] @ str (replicate 80 CHR ''#'') @ [10, 10]]"
    by code_simp
  have w1: "wrapper_wrap [104, 105] = [[104, 105]]" by code_simp
  have w2: "wrapper_wrap [] = []" by code_simp
  have w3: "wrapper_wrap [121, 111] = [[121, 111]]" by code_simp
  have sl: "splitlines [104, 105, 10, 10, 121, 111] = [[104, 105], [], [121, 111]]"
    by (simp add: is_linebreak_def)
  note c = one_block_per_candidate [OF h refl refl refl refl, of ?a]
  have shape: "file_block ?fs ''/r'' 1000000 f =
         (case read_text_safely ?fs f 1000000 of
            (None, note) \<Rightarrow>
              [str ''===== FILE: '' @ str (relpath f ''/r'') @ str '' ('' @ fmt_note note
                 @ str '') ====='' @ [10],
               str (replicate 80 CHR ''-'') @ [10, 10]]
          | (Some t, note) \<Rightarrow>
              [str ''===== FILE: '' @ str (relpath f ''/r'') @ str '' ====='' @ [10],
               str (replicate 80 CHR ''-'') @ [10]]
              @ map (\<lambda>raw. (if wrapper_wrap raw = [] then []
                             else join_with [10] (wrapper_wrap raw)) @ [10]) (splitlines t)
              @ [str (replicate 80 CHR ''-'') @ [10],
                 str ''===== END FILE: '' @ str (relpath f ''/r'') @ str '' ====='' @ [10, 10]])"
    for f
    using c by (simp only: args.select_convs world.select_convs)
  have ba: "file_block ?fs ''/r'' 1000000 ''/r/a.txt''
    = [str ''===== FILE: a.txt ====='' @ [10],
       str (replicate 80 CHR ''-'') @ [10],
       str ''hi'' @ [10],
       [10],
       str ''yo'' @ [10],
       str (replicate 80 CHR ''-'') @ [10],
       str ''===== END FILE: a.txt ====='' @ [10, 10]]"
    unfolding shape ra pa prod.case option.case sl
    by (simp add: w1 w2 w3 str_def)
  have bb: "file_block ?fs ''/r'' 1000000 ''/r/b.txt''
    = [str ''===== FILE: b.txt (IGNORED (binary file)) ====='' @ [10],
       str (replicate 80 CHR ''-'') @ [10, 10]]"
    unfolding shape rb pb prod.case option.case
    by (simp add: fmt_note_def str_def)
  have la: "loaded ?fs 1000000 ''/r/a.txt''" by (simp add: loaded_def ra)
  have lb: "\<not> loaded ?fs 1000000 ''/r/b.txt''" by (simp add: loaded_def rb)
  have "main ?a ?w = Inr
     \<lparr>output_doc = write_header [] ''/r'' [''/r/a.txt'', ''/r/b.txt''] True ''2026-01-01T00:00:00''
                    @ concat (map (file_block ?fs ''/r'' 1000000) [''/r/a.txt'', ''/r/b.txt'']),
      written_count = length (filter (loaded ?fs 1000000) [''/r/a.txt'', ''/r/b.txt'']),
      stdout_lines =
        [''Export complete: '' @ ''/o/local.txt'',
         ''Files successfully written: ''
           @ show_nat (length (filter (loaded ?fs 1000000) [''/r/a.txt'', ''/r/b.txt'']))
           @ ''/'' @ show_nat (length [''/r/a.txt'', ''/r/b.txt''])]\<rparr>"
    using c by (simp only: args.select_convs world.select_convs g)
  then have "main ?a ?w = Inr
     \<lparr>output_doc = write_header [] ''/r'' [''/r/a.txt'', ''/r/b.txt''] True ''2026-01-01T00:00:00''
                    @ file_block ?fs ''/r'' 1000000 ''/r/a.txt''
                    @ file_block ?fs ''/r'' 1000000 ''/r/b.txt'',
      written_count = 1,
      stdout_lines = [''Export complete: /o/local.txt'', ''Files successfully written: 1/2'']\<rparr>"
    by (simp add: la lb n1 n2)
  then show ?thesis
    unfolding hdr ba bb using h by simp
qed

end
